theory Spec2Isabelle
  imports Main
begin

section \<open>Constants and data of \<open>scripts/setup_auth_auto.py\<close>\<close>

text \<open>
  Python strings are modelled as \<open>string\<close>, read as their UTF-8 bytes: the handler only
  compares strings, tests them for emptiness, concatenates them and replaces ASCII
  characters, all of which agree on code points and on bytes.
\<close>

definition CALLBACK_PATH :: string where
  "CALLBACK_PATH = ''/exchange_token''"


definition STATUS_SKIPPED :: string where
  "STATUS_SKIPPED = ''SKIPPED''"


text \<open>The secret-name sets of the source, their members listed in sorted order.\<close>

definition STRAVA_REQUIRED_SECRET_NAMES :: "string list" where
  "STRAVA_REQUIRED_SECRET_NAMES =
     [''STRAVA_CLIENT_ID'', ''STRAVA_CLIENT_SECRET'', ''STRAVA_REFRESH_TOKEN'']"




record CallbackResult =
  code :: "string option"
  error :: "string option"

text \<open>The exceptions that the modelled code raises or lets through.\<close>

datatype exn =
  IndexError
  | ValueError
  | AttributeError
  | FileNotFoundError
  | RuntimeError
  | CalledProcessError
  | OtherException
  | KeyboardInterrupt
  | SystemExit "int option"

text \<open>Python's truth value of an \<open>Optional[str]\<close>: \<open>None\<close> and the empty string are false.\<close>

definition truthy :: "'a list option \<Rightarrow> bool" where
  "truthy v = (case v of None \<Rightarrow> False | Some s \<Rightarrow> s \<noteq> [])"


section \<open>The OAuth callback handler\<close>

text \<open>
  The class attributes of \<open>OAuthCallbackHandler\<close>: every handler instance reads and writes
  them through \<open>self.__class__\<close>, so they are the state shared by all requests.
\<close>

record handler_class =
  result :: CallbackResult
  expected_state :: string

text \<open>
  What the standard library makes of the request target \<open>self.path\<close>. The first
  statement of \<open>do_GET\<close> is \<open>urllib.parse.urlparse(self.path)\<close>, which raises \<open>ValueError\<close>
  on a target such as \<open>http://[/favicon.ico\<close> (a bracket that opens no IPv6 address): the
  handler is given \<open>Inl ValueError\<close> for such a target. For a target that parses it is
  given \<open>Inr\<close> of a request, where \<open>path\<close> is the path component and \<open>pairs\<close> is the list of
  decoded name/value pairs that \<open>urllib.parse.parse_qsl\<close> finds in the query component.
  \<open>parse_qs\<close> groups these pairs into a dict of lists, a name's values in their order
  of arrival.
\<close>

record request =
  path :: string
  pairs :: "(string \<times> string) list"

fun parse_qs_add :: "(string \<rightharpoonup> string list) \<Rightarrow> string \<times> string \<Rightarrow> (string \<rightharpoonup> string list)" where
  "parse_qs_add d (n, v) =
     (case d n of
        Some vs \<Rightarrow> d(n \<mapsto> vs @ [v])
      | None \<Rightarrow> d(n \<mapsto> [v]))"

definition parse_qs :: "(string \<times> string) list \<Rightarrow> (string \<rightharpoonup> string list)" where
  "parse_qs ps = foldl parse_qs_add Map.empty ps"

text \<open>\<open>query.get(k, [""])[0]\<close>: indexing an empty list raises \<open>IndexError\<close>.\<close>

definition query_first :: "(string \<rightharpoonup> string list) \<Rightarrow> string \<Rightarrow> exn + string" where
  "query_first query k =
     (case (case query k of None \<Rightarrow> [''''] | Some vs \<Rightarrow> vs) of
        [] \<Rightarrow> Inl IndexError
      | v # _ \<Rightarrow> Inr v)"

text \<open>\<open>html.escape(s, quote=True)\<close>: the ampersand is replaced first, so replacing
  character by character gives the same text as the library's five successive passes.\<close>

definition escape_char :: "char \<Rightarrow> string" where
  "escape_char c =
     (if c = CHR ''&'' then ''&amp;''
      else if c = CHR ''<'' then ''&lt;''
      else if c = CHR ''>'' then ''&gt;''
      else if c = CHR 0x22 then ''&quot;''
      else if c = CHR 0x27 then ''&#x27;''
      else [c])"

definition html_escape :: "string \<Rightarrow> string" where
  "html_escape s = concat (map escape_char s)"

text \<open>\<open>str(n)\<close> for a length.\<close>

fun str_nat :: "nat \<Rightarrow> string" where
  "str_nat n =
     (if n < 10 then [char_of (48 + n)]
      else str_nat (n div 10) @ [char_of (48 + n mod 10)])"

text \<open>What the handler sends: \<open>send_error(status, message)\<close>, or a response with its
  status, headers and body. Writing to the connection is taken to succeed.\<close>

datatype response =
  Send_error nat string
  | Response nat "(string \<times> string) list" string

definition page :: "string \<Rightarrow> string" where
  "page message =
     ''<!doctype html><html><head><meta charset='' @ [CHR 0x27] @ ''utf-8'' @ [CHR 0x27] @ ''>''
     @ ''<title>Strava Auth</title></head><body>''
     @ ''<p>'' @ html_escape message @ ''</p></body></html>''"

definition html_response :: "string \<Rightarrow> response" where
  "html_response message =
     Response 200
       [(''Content-Type'', ''text/html; charset=utf-8''),
        (''Content-Length'', str_nat (length (page message)))]
       (page message)"

definition do_GET ::
  "handler_class \<Rightarrow> exn + request \<Rightarrow> exn + (handler_class \<times> response)" where
  "do_GET cls parsed =
     (case parsed of Inl x \<Rightarrow> Inl x | Inr req \<Rightarrow>
      if path req \<noteq> CALLBACK_PATH then Inr (cls, Send_error 404 ''Not Found'')
      else
        let query = parse_qs (pairs req) in
        case query_first query ''state'' of Inl x \<Rightarrow> Inl x | Inr state \<Rightarrow>
        case query_first query ''code'' of Inl x \<Rightarrow> Inl x | Inr c \<Rightarrow>
        case query_first query ''error'' of Inl x \<Rightarrow> Inl x | Inr e \<Rightarrow>
          let r = (if e \<noteq> [] then
                     (result cls)\<lparr>error := Some (''Strava returned error: '' @ e)\<rparr>
                   else if c = [] then
                     (result cls)\<lparr>error :=
                        Some ''Missing code query parameter in callback URL.''\<rparr>
                   else if state \<noteq> expected_state cls then
                     (result cls)\<lparr>error := Some ''State mismatch in callback. Please retry.''\<rparr>
                   else (result cls)\<lparr>code := Some c\<rparr>);
              message =
                (if truthy (error r)
                 then ''Authorization failed: '' @ (case error r of Some s \<Rightarrow> s | None \<Rightarrow> ''None'')
                 else ''Authorization received. You can close this tab and return to the terminal.'')
          in Inr (cls\<lparr>result := r\<rparr>, html_response message))"

text \<open>
  \<open>ReusableTCPServer\<close> is a plain \<open>socketserver.TCPServer\<close>: it handles one request after
  the other. An exception that escapes a handler is reported by the server and the next
  request is served; the class attributes stay as the handler left them, which for
  \<open>do_GET\<close> is untouched, since it raises before its first assignment. The server is
  given the requests as the handler sees them.
\<close>

fun serve :: "handler_class \<Rightarrow> (exn + request) list \<Rightarrow> handler_class" where
  "serve cls [] = cls"
| "serve cls (req # reqs) =
     (case do_GET cls req of
        Inl x \<Rightarrow> serve cls reqs
      | Inr (cls', resp) \<Rightarrow> serve cls' reqs)"


section \<open>Resolving the repository slug\<close>

text \<open>
  The strings of this section are Python \<open>str\<close> values as lists of their Unicode code
  points, since \<open>str.strip()\<close> removes white space by code point. \<open>isspace\<close> is the white
  space of \<open>str.isspace\<close>: the code points \<open>0x09\<close> to \<open>0x0d\<close>, \<open>0x1c\<close> to \<open>0x20\<close>, \<open>0x85\<close>,
  \<open>0xa0\<close>, \<open>0x1680\<close>, \<open>0x2000\<close> to \<open>0x200a\<close>, \<open>0x2028\<close>, \<open>0x2029\<close>, \<open>0x202f\<close>, \<open>0x205f\<close> and
  \<open>0x3000\<close>.
\<close>

type_synonym str = "nat list"

definition isspace :: "nat \<Rightarrow> bool" where
  "isspace c =
     ((9 \<le> c \<and> c \<le> 13) \<or> (28 \<le> c \<and> c \<le> 32) \<or> c = 133 \<or> c = 160 \<or> c = 5760
      \<or> (8192 \<le> c \<and> c \<le> 8202) \<or> c = 8232 \<or> c = 8233 \<or> c = 8239 \<or> c = 8287
      \<or> c = 12288)"

definition strip :: "str \<Rightarrow> str" where
  "strip s = rev (dropWhile isspace (rev (dropWhile isspace s)))"

text \<open>
  \<open>_run(cmd, check=False)\<close> is \<open>subprocess.run\<close> with the output captured as text. It
  returns the finished process, whatever its return code, or raises: \<open>FileNotFoundError\<close>
  when the executable is not installed, for one. The outcomes of the two commands of this
  section and the environment variable \<open>GH_REPO\<close> are given by the environment.
  The leading underscore of the source's private names is dropped.
\<close>

record CompletedProcess =
  returncode :: int
  stdout :: str

record repo_env =
  git_remote_origin_url :: "exn + CompletedProcess"
  GH_REPO :: "str option"
  gh_repo_view :: "exn + CompletedProcess"

text \<open>
  \<open>_normalize_repo_slug\<close> only calls \<open>repo_helpers.normalize_repo_slug\<close>, which is not
  part of this file: it is the parameter \<open>normalize_repo_slug\<close> of the functions below.
\<close>

definition repo_slug_from_git ::
  "(str option \<Rightarrow> str option) \<Rightarrow> repo_env \<Rightarrow> exn + str option" where
  "repo_slug_from_git normalize_repo_slug env =
     (case git_remote_origin_url env of
        Inl x \<Rightarrow> Inl x
      | Inr completed \<Rightarrow>
          if returncode completed \<noteq> 0 then Inr None
          else Inr (normalize_repo_slug (Some (strip (stdout completed)))))"

definition repo_slug_from_gh_context ::
  "(str option \<Rightarrow> str option) \<Rightarrow> repo_env \<Rightarrow> exn + str option" where
  "repo_slug_from_gh_context normalize_repo_slug env =
     (case gh_repo_view env of
        Inl x \<Rightarrow> Inl x
      | Inr completed \<Rightarrow>
          if returncode completed \<noteq> 0 then Inr None
          else Inr (normalize_repo_slug (Some (strip (stdout completed)))))"

text \<open>The \<open>for\<close> loop over the candidates.\<close>

fun first_normalized ::
  "(str option \<Rightarrow> str option) \<Rightarrow> str option list \<Rightarrow> str option" where
  "first_normalized normalize_repo_slug [] = None"
| "first_normalized normalize_repo_slug (candidate # candidates) =
     (let normalized = normalize_repo_slug candidate in
      if truthy normalized then normalized
      else first_normalized normalize_repo_slug candidates)"

text \<open>
  \<open>_resolve_repo_slug\<close> builds the list of the four candidates before the loop starts, in
  the order of the list display: both commands are run, \<open>git\<close> first, whatever the explicit
  argument is, and an exception of either leaves the function.
\<close>

definition resolve_repo_slug ::
  "(str option \<Rightarrow> str option) \<Rightarrow> repo_env \<Rightarrow> str option \<Rightarrow> exn + str option" where
  "resolve_repo_slug normalize_repo_slug env explicit_repo =
     (case repo_slug_from_git normalize_repo_slug env of
        Inl x \<Rightarrow> Inl x
      | Inr from_git \<Rightarrow>
     (case repo_slug_from_gh_context normalize_repo_slug env of
        Inl x \<Rightarrow> Inl x
      | Inr from_gh \<Rightarrow>
          Inr (first_normalized normalize_repo_slug
                 [explicit_repo, from_git, GH_REPO env, from_gh])))"


section \<open>\<open>main\<close> and the script's entry point\<close>











section \<open>Secret groups, after the specification\<close>








section \<open>Sample runs\<close>



section \<open>Properties of the callback handler\<close>

text \<open>The lists that \<open>parse_qs\<close> builds are never empty, so the three lookups of
  \<open>do_GET\<close> never raise: a request whose target parses always gets an answer.\<close>

lemma parse_qs_add_nonempty:
  assumes "\<And>k vs. d k = Some vs \<Longrightarrow> vs \<noteq> []"
    and "parse_qs_add d p k = Some vs"
  shows "vs \<noteq> []"
proof (cases p)
  case (Pair n v)
  show ?thesis
  proof (cases "d n")
    case None
    with Pair assms(2) have "(d(n \<mapsto> [v])) k = Some vs" by simp
    then show ?thesis using assms(1) [of k vs] by (cases "k = n") auto
  next
    case (Some ws)
    with Pair assms(2) have "(d(n \<mapsto> ws @ [v])) k = Some vs" by simp
    then show ?thesis using assms(1) [of k vs] by (cases "k = n") auto
  qed
qed

lemma foldl_parse_qs_add_nonempty:
  "(\<And>k vs. d k = Some vs \<Longrightarrow> vs \<noteq> []) \<Longrightarrow>
   foldl parse_qs_add d ps k = Some vs \<Longrightarrow> vs \<noteq> []"
proof (induction ps arbitrary: d)
  case Nil
  then show ?case by simp
next
  case (Cons p ps)
  have step: "\<And>k vs. parse_qs_add d p k = Some vs \<Longrightarrow> vs \<noteq> []"
    using parse_qs_add_nonempty [of d p] Cons.prems(1) by blast
  from Cons.prems(2) have "foldl parse_qs_add (parse_qs_add d p) ps k = Some vs" by simp
  with Cons.IH [of "parse_qs_add d p"] step show ?case by blast
qed

lemma query_first_parse_qs: "\<exists>v. query_first (parse_qs ps) k = Inr v"
proof (cases "parse_qs ps k")
  case None
  then show ?thesis by (simp add: query_first_def)
next
  case (Some vs)
  then have "vs \<noteq> []"
    using foldl_parse_qs_add_nonempty [of Map.empty ps k vs] by (simp add: parse_qs_def)
  then obtain v ws where "vs = v # ws" by (cases vs) auto
  with Some show ?thesis by (simp add: query_first_def)
qed

lemma do_GET_unparsed: "do_GET cls (Inl x) = Inl x"
  by (simp add: do_GET_def)

lemma do_GET_other_path:
  "path req \<noteq> CALLBACK_PATH \<Longrightarrow>
   do_GET cls (Inr req) = Inr (cls, Send_error 404 ''Not Found'')"
  by (simp add: do_GET_def)

lemma do_GET_callback:
  assumes "path req = CALLBACK_PATH"
    and "query_first (parse_qs (pairs req)) ''state'' = Inr st"
    and "query_first (parse_qs (pairs req)) ''code'' = Inr c"
    and "query_first (parse_qs (pairs req)) ''error'' = Inr e"
  shows "do_GET cls (Inr req) =
    Inr (cls\<lparr>result :=
           (if e \<noteq> [] then (result cls)\<lparr>error := Some (''Strava returned error: '' @ e)\<rparr>
            else if c = [] then
              (result cls)\<lparr>error := Some ''Missing code query parameter in callback URL.''\<rparr>
            else if st \<noteq> expected_state cls then
              (result cls)\<lparr>error := Some ''State mismatch in callback. Please retry.''\<rparr>
            else (result cls)\<lparr>code := Some c\<rparr>)\<rparr>,
         html_response
           (if e \<noteq> [] then ''Authorization failed: Strava returned error: '' @ e
            else if c = [] then
              ''Authorization failed: Missing code query parameter in callback URL.''
            else if st \<noteq> expected_state cls then
              ''Authorization failed: State mismatch in callback. Please retry.''
            else if truthy (error (result cls)) then
              ''Authorization failed: '' @ (case error (result cls) of Some s \<Rightarrow> s | None \<Rightarrow> ''None'')
            else ''Authorization received. You can close this tab and return to the terminal.''))"
  using assms by (simp add: do_GET_def Let_def truthy_def)



lemma do_GET_keeps_fields:
  assumes "do_GET cls u = Inr (cls', resp)"
  shows "(code (result cls) \<noteq> None \<longrightarrow> code (result cls') \<noteq> None)
       \<and> (truthy (error (result cls)) \<longrightarrow> truthy (error (result cls')))"
proof (cases u)
  case (Inl x)
  with assms show ?thesis by (simp add: do_GET_unparsed)
next
  case (Inr req)
  show ?thesis
  proof (cases "path req = CALLBACK_PATH")
    case False
    with assms Inr show ?thesis by (simp add: do_GET_other_path)
  next
    case True
    obtain st c e where "query_first (parse_qs (pairs req)) ''state'' = Inr st"
      "query_first (parse_qs (pairs req)) ''code'' = Inr c"
      "query_first (parse_qs (pairs req)) ''error'' = Inr e"
      using query_first_parse_qs by meson
    from do_GET_callback [OF True this, of cls] assms Inr show ?thesis
      by (auto simp: truthy_def)
  qed
qed

lemma serve_keeps_fields:
  "(code (result cls) \<noteq> None \<longrightarrow> code (result (serve cls reqs)) \<noteq> None)
   \<and> (truthy (error (result cls)) \<longrightarrow> truthy (error (result (serve cls reqs))))"
proof (induction reqs arbitrary: cls)
  case Nil
  show ?case by simp
next
  case (Cons u reqs)
  show ?case
  proof (cases "do_GET cls u")
    case (Inl x)
    with Cons.IH [of cls] show ?thesis by simp
  next
    case (Inr answer)
    obtain cls' resp where answer: "answer = (cls', resp)" by (cases answer)
    with Inr have run: "do_GET cls u = Inr (cls', resp)" by simp
    from do_GET_keeps_fields [OF run] Cons.IH [of cls'] run show ?thesis by simp
  qed
qed




subsection \<open>The order of the checks\<close>

text \<open>
  Claim C1, as the code has it. On a GET request to the callback path the handler
  tests, in this order: an \<open>error\<close> parameter that is present stores the provider's error;
  otherwise a missing \<open>code\<close> stores the missing-code error; otherwise a \<open>state\<close> that
  differs from \<open>expected_state\<close> stores the state-mismatch error; otherwise the code is
  stored. Each branch assigns one field of the result and leaves the other as it was.
  So a callback whose state matches, whose code is present and whose error parameter is
  absent leaves the result with \<open>code\<close> set, and with \<open>error\<close> unset when \<open>error\<close> was
  unset before the request.
\<close>

theorem callback_priority_order:
  assumes "path req = CALLBACK_PATH"
    and "query_first (parse_qs (pairs req)) ''state'' = Inr st"
    and "query_first (parse_qs (pairs req)) ''code'' = Inr c"
    and "query_first (parse_qs (pairs req)) ''error'' = Inr e"
  shows "\<exists>cls' resp. do_GET cls (Inr req) = Inr (cls', resp)
     \<and> result cls' =
         (if e \<noteq> [] then (result cls)\<lparr>error := Some (''Strava returned error: '' @ e)\<rparr>
          else if c = [] then
            (result cls)\<lparr>error := Some ''Missing code query parameter in callback URL.''\<rparr>
          else if st \<noteq> expected_state cls then
            (result cls)\<lparr>error := Some ''State mismatch in callback. Please retry.''\<rparr>
          else (result cls)\<lparr>code := Some c\<rparr>)
     \<and> (e = [] \<and> c \<noteq> [] \<and> st = expected_state cls \<and> error (result cls) = None
          \<longrightarrow> code (result cls') = Some c \<and> error (result cls') = None)"
  using do_GET_callback [OF assms, of cls] by simp

theorem callback_priority_order_witness:
  "\<exists>cls' resp.
     do_GET \<lparr>result = \<lparr>code = None, error = None\<rparr>, expected_state = ''xyz''\<rparr>
       (Inr \<lparr>path = ''/exchange_token'', pairs = [(''code'', ''abc''), (''state'', ''xyz'')]\<rparr>)
     = Inr (cls', resp)
     \<and> code (result cls') = Some ''abc'' \<and> error (result cls') = None"
proof -
  let ?req = "\<lparr>path = ''/exchange_token'', pairs = [(''code'', ''abc''), (''state'', ''xyz'')]\<rparr>"
  let ?cls = "\<lparr>result = \<lparr>code = None, error = None\<rparr>, expected_state = ''xyz''\<rparr>"
  have p: "path ?req = CALLBACK_PATH" by (simp add: CALLBACK_PATH_def)
  have s: "query_first (parse_qs (pairs ?req)) ''state'' = Inr ''xyz''"
    by (simp add: query_first_def parse_qs_def)
  have c: "query_first (parse_qs (pairs ?req)) ''code'' = Inr ''abc''"
    by (simp add: query_first_def parse_qs_def)
  have e: "query_first (parse_qs (pairs ?req)) ''error'' = Inr ''''"
    by (simp add: query_first_def parse_qs_def)
  have pre: "'''' = ([]::string) \<and> ''abc'' \<noteq> [] \<and> ''xyz'' = expected_state ?cls
      \<and> error (result ?cls) = None"
    by simp
  from callback_priority_order [OF p s c e, of ?cls] pre show ?thesis by blast
qed

text \<open>
  The claim as written promises \<open>error\<close> unset after every such callback. A first request
  with a forged state stores the state-mismatch error; the valid callback that follows
  stores its code beside it, and the result has both fields set.
\<close>

theorem callback_stale_error_counterexample:
  "do_GET \<lparr>result = \<lparr>code = None, error = None\<rparr>, expected_state = ''xyz''\<rparr>
     (Inr \<lparr>path = ''/exchange_token'', pairs = [(''code'', ''abc''), (''state'', ''forged'')]\<rparr>)
   = Inr (\<lparr>result = \<lparr>code = None,
                        error = Some ''State mismatch in callback. Please retry.''\<rparr>,
           expected_state = ''xyz''\<rparr>,
          html_response ''Authorization failed: State mismatch in callback. Please retry.'')
   \<and> do_GET \<lparr>result = \<lparr>code = None,
                          error = Some ''State mismatch in callback. Please retry.''\<rparr>,
              expected_state = ''xyz''\<rparr>
        (Inr \<lparr>path = ''/exchange_token'', pairs = [(''code'', ''abc''), (''state'', ''xyz'')]\<rparr>)
      = Inr (\<lparr>result = \<lparr>code = Some ''abc'',
                           error = Some ''State mismatch in callback. Please retry.''\<rparr>,
              expected_state = ''xyz''\<rparr>,
             html_response ''Authorization failed: State mismatch in callback. Please retry.'')"
  by (simp add: do_GET_def CALLBACK_PATH_def query_first_def parse_qs_def truthy_def)


subsection \<open>Later requests and the stored code\<close>

text \<open>
  Claim C2, as the code has it. The handler has no first-write guard: the last write to
  a field wins. A request to the callback path whose three checks pass replaces the
  stored code by its own; every other request (one off the callback path, or one that
  ends in an error branch) leaves the stored code as it was.
\<close>

theorem stored_code_after_request:
  assumes "query_first (parse_qs (pairs req)) ''state'' = Inr st"
    and "query_first (parse_qs (pairs req)) ''code'' = Inr c"
    and "query_first (parse_qs (pairs req)) ''error'' = Inr e"
  shows "\<exists>cls' resp. do_GET cls (Inr req) = Inr (cls', resp)
     \<and> code (result cls') =
         (if path req = CALLBACK_PATH \<and> e = [] \<and> c \<noteq> [] \<and> st = expected_state cls
          then Some c else code (result cls))"
proof (cases "path req = CALLBACK_PATH")
  case False
  then show ?thesis by (simp add: do_GET_other_path)
next
  case True
  from do_GET_callback [OF True assms, of cls] True show ?thesis by simp
qed

theorem stored_code_after_request_witness:
  "\<exists>cls' resp.
     do_GET \<lparr>result = \<lparr>code = Some ''first'', error = None\<rparr>, expected_state = ''xyz''\<rparr>
       (Inr \<lparr>path = ''/exchange_token'', pairs = [(''error'', ''access_denied'')]\<rparr>)
     = Inr (cls', resp)
     \<and> code (result cls') = Some ''first''"
proof -
  let ?req = "\<lparr>path = ''/exchange_token'', pairs = [(''error'', ''access_denied'')]\<rparr>"
  let ?cls = "\<lparr>result = \<lparr>code = Some ''first'', error = None\<rparr>, expected_state = ''xyz''\<rparr>"
  have s: "query_first (parse_qs (pairs ?req)) ''state'' = Inr ''''"
    by (simp add: query_first_def parse_qs_def)
  have c: "query_first (parse_qs (pairs ?req)) ''code'' = Inr ''''"
    by (simp add: query_first_def parse_qs_def)
  have e: "query_first (parse_qs (pairs ?req)) ''error'' = Inr ''access_denied''"
    by (simp add: query_first_def parse_qs_def)
  from stored_code_after_request [OF s c e, of ?cls] show ?thesis by simp
qed

text \<open>
  First-write-wins fails: after a first valid callback has stored the code \<open>first\<close>, a
  second valid callback replaces it by \<open>second\<close>.
\<close>

theorem stored_code_overwritten_counterexample:
  "serve \<lparr>result = \<lparr>code = None, error = None\<rparr>, expected_state = ''xyz''\<rparr>
     [(Inr \<lparr>path = ''/exchange_token'', pairs = [(''code'', ''first''), (''state'', ''xyz'')]\<rparr>)]
   = \<lparr>result = \<lparr>code = Some ''first'', error = None\<rparr>, expected_state = ''xyz''\<rparr>
   \<and> serve \<lparr>result = \<lparr>code = None, error = None\<rparr>, expected_state = ''xyz''\<rparr>
       [(Inr \<lparr>path = ''/exchange_token'', pairs = [(''code'', ''first''), (''state'', ''xyz'')]\<rparr>),
        (Inr \<lparr>path = ''/exchange_token'', pairs = [(''code'', ''second''), (''state'', ''xyz'')]\<rparr>)]
     = \<lparr>result = \<lparr>code = Some ''second'', error = None\<rparr>, expected_state = ''xyz''\<rparr>"
  by (simp add: do_GET_def CALLBACK_PATH_def query_first_def parse_qs_def truthy_def)


subsection \<open>The two fields of the result\<close>

text \<open>
  Claim C3, as the code has it. On a result with both fields unset, the first request
  to the callback path sets exactly one of \<open>code\<close> and \<open>error\<close>. The result is not frozen
  afterwards: a request off the callback path changes nothing, and through any further
  requests a field that is set stays set (its value may be replaced), so that both
  fields can end up set.
\<close>

theorem result_fields_after_requests:
  "(code (result cls) = None \<and> error (result cls) = None \<and> path req = CALLBACK_PATH
      \<longrightarrow> (\<exists>cls' resp. do_GET cls (Inr req) = Inr (cls', resp)
            \<and> (code (result cls') = None) \<noteq> (error (result cls') = None)))
   \<and> (path req \<noteq> CALLBACK_PATH \<longrightarrow> serve cls [Inr req] = cls)
   \<and> (code (result cls) \<noteq> None \<longrightarrow> code (result (serve cls reqs)) \<noteq> None)
   \<and> (truthy (error (result cls)) \<longrightarrow> truthy (error (result (serve cls reqs))))"
proof (intro conjI impI)
  assume fresh: "code (result cls) = None \<and> error (result cls) = None \<and> path req = CALLBACK_PATH"
  then have on_path: "path req = CALLBACK_PATH" by simp
  obtain st c e where "query_first (parse_qs (pairs req)) ''state'' = Inr st"
    "query_first (parse_qs (pairs req)) ''code'' = Inr c"
    "query_first (parse_qs (pairs req)) ''error'' = Inr e"
    using query_first_parse_qs by meson
  from do_GET_callback [OF on_path this, of cls] fresh
  show "\<exists>cls' resp. do_GET cls (Inr req) = Inr (cls', resp)
            \<and> (code (result cls') = None) \<noteq> (error (result cls') = None)"
    by simp
next
  assume "path req \<noteq> CALLBACK_PATH"
  then show "serve cls [Inr req] = cls" by (simp add: do_GET_other_path)
next
  assume "code (result cls) \<noteq> None"
  then show "code (result (serve cls reqs)) \<noteq> None"
    using serve_keeps_fields [of cls reqs] by blast
next
  assume "truthy (error (result cls))"
  then show "truthy (error (result (serve cls reqs)))"
    using serve_keeps_fields [of cls reqs] by blast
qed

theorem result_fields_after_requests_witness:
  "(\<exists>cls' resp.
      do_GET \<lparr>result = \<lparr>code = None, error = None\<rparr>, expected_state = ''xyz''\<rparr>
        (Inr \<lparr>path = ''/exchange_token'', pairs = [(''code'', ''abc'')]\<rparr>)
      = Inr (cls', resp)
      \<and> (code (result cls') = None) \<noteq> (error (result cls') = None))
   \<and> serve \<lparr>result = \<lparr>code = None, error = Some ''Strava returned error: x''\<rparr>,
             expected_state = ''xyz''\<rparr>
        [(Inr \<lparr>path = ''/favicon.ico'', pairs = []\<rparr>)]
      = \<lparr>result = \<lparr>code = None, error = Some ''Strava returned error: x''\<rparr>,
         expected_state = ''xyz''\<rparr>
   \<and> code (result
        (serve \<lparr>result = \<lparr>code = Some ''abc'', error = None\<rparr>, expected_state = ''xyz''\<rparr>
           [(Inr \<lparr>path = ''/exchange_token'', pairs = [(''error'', ''denied'')]\<rparr>)])) \<noteq> None
   \<and> truthy (error (result
        (serve \<lparr>result = \<lparr>code = None, error = Some ''Strava returned error: x''\<rparr>,
                 expected_state = ''xyz''\<rparr>
           [(Inr \<lparr>path = ''/exchange_token'', pairs = [(''code'', ''abc''), (''state'', ''xyz'')]\<rparr>)])))"
proof -
  let ?cls = "\<lparr>result = \<lparr>code = None, error = None\<rparr>, expected_state = ''xyz''\<rparr>"
  let ?req = "\<lparr>path = ''/exchange_token'', pairs = [(''code'', ''abc'')]\<rparr>"
  let ?cls2 = "\<lparr>result = \<lparr>code = None, error = Some ''Strava returned error: x''\<rparr>,
                 expected_state = ''xyz''\<rparr>"
  let ?off = "\<lparr>path = ''/favicon.ico'', pairs = []\<rparr>"
  let ?cls3 = "\<lparr>result = \<lparr>code = Some ''abc'', error = None\<rparr>, expected_state = ''xyz''\<rparr>"
  have a: "code (result ?cls) = None \<and> error (result ?cls) = None \<and> path ?req = CALLBACK_PATH"
    by (simp add: CALLBACK_PATH_def)
  have b: "truthy (error (result ?cls2))" by (simp add: truthy_def)
  have c: "path ?off \<noteq> CALLBACK_PATH" by (simp add: CALLBACK_PATH_def)
  have d: "code (result ?cls3) \<noteq> None" by simp
  have first: "\<exists>cls' resp. do_GET ?cls (Inr ?req) = Inr (cls', resp)
      \<and> (code (result cls') = None) \<noteq> (error (result cls') = None)"
    using result_fields_after_requests [of ?cls ?req "[]"] a by blast
  have second: "serve ?cls2 [Inr ?off] = ?cls2"
    using result_fields_after_requests [of ?cls2 ?off "[]"] c by blast
  have third: "code (result (serve ?cls3
      [(Inr \<lparr>path = ''/exchange_token'', pairs = [(''error'', ''denied'')]\<rparr>)])) \<noteq> None"
    using result_fields_after_requests [of ?cls3 ?req
      "[(Inr \<lparr>path = ''/exchange_token'', pairs = [(''error'', ''denied'')]\<rparr>)]"] d by blast
  have fourth: "truthy (error (result (serve ?cls2
      [(Inr \<lparr>path = ''/exchange_token'', pairs = [(''code'', ''abc''), (''state'', ''xyz'')]\<rparr>)])))"
    using result_fields_after_requests [of ?cls2 ?req
      "[(Inr \<lparr>path = ''/exchange_token'', pairs = [(''code'', ''abc''), (''state'', ''xyz'')]\<rparr>)]"] b
    by blast
  from first second third fourth show ?thesis by (intro conjI)
qed

text \<open>
  Neither half of the claim as written holds: a valid callback resolves the result with
  a code, and a later callback without a code changes the resolved result, which then
  has both \<open>code\<close> and \<open>error\<close> set.
\<close>

theorem result_both_fields_counterexample:
  "serve \<lparr>result = \<lparr>code = None, error = None\<rparr>, expected_state = ''s1''\<rparr>
     [(Inr \<lparr>path = ''/exchange_token'', pairs = [(''code'', ''c1''), (''state'', ''s1'')]\<rparr>)]
   = \<lparr>result = \<lparr>code = Some ''c1'', error = None\<rparr>, expected_state = ''s1''\<rparr>
   \<and> serve \<lparr>result = \<lparr>code = None, error = None\<rparr>, expected_state = ''s1''\<rparr>
       [(Inr \<lparr>path = ''/exchange_token'', pairs = [(''code'', ''c1''), (''state'', ''s1'')]\<rparr>),
        (Inr \<lparr>path = ''/exchange_token'', pairs = [(''state'', ''s1'')]\<rparr>)]
     = \<lparr>result = \<lparr>code = Some ''c1'',
                     error = Some ''Missing code query parameter in callback URL.''\<rparr>,
        expected_state = ''s1''\<rparr>"
  by (simp add: do_GET_def CALLBACK_PATH_def query_first_def parse_qs_def truthy_def)


subsection \<open>Status and page of the response\<close>

lemma escape_char_no_markup:
  "c \<in> set (escape_char d) \<Longrightarrow> c \<notin> {CHR ''<'', CHR ''>'', CHR 0x22, CHR 0x27}"
  by (simp add: escape_char_def split: if_splits) auto

lemma html_escape_no_markup:
  "c \<in> set (html_escape s) \<Longrightarrow> c \<notin> {CHR ''<'', CHR ''>'', CHR 0x22, CHR 0x27}"
  using escape_char_no_markup by (auto simp: html_escape_def)

lemma escape_char_plain:
  "d \<notin> {CHR ''&'', CHR ''<'', CHR ''>'', CHR 0x22, CHR 0x27} \<Longrightarrow> escape_char d = [d]"
  by (simp add: escape_char_def)

lemma html_escape_plain:
  "(\<forall>c \<in> set s. c \<notin> {CHR ''&'', CHR ''<'', CHR ''>'', CHR 0x22, CHR 0x27}) \<Longrightarrow>
   html_escape s = s"
  by (induction s) (simp_all add: html_escape_def escape_char_plain)

text \<open>
  Claim C7, as the code has it. A request target that \<open>urlparse\<close> rejects makes the
  handler raise before anything is sent: such a request gets no response at all. A GET
  request whose target parses to a path other than the callback path is answered with
  \<open>send_error(404, "Not Found")\<close> and leaves the class attributes, the result among them,
  as they were. A GET request whose target parses to the callback path is answered with
  status 200, content type \<open>text/html\<close>, the length of the body as content length, and as
  body the HTML page around the escaped message, which is the confirmation or an
  "Authorization failed" text with the error that the result then holds, whatever the
  checks of the parameters gave. The escaped message has no markup character left, and a
  message without any is shown as it is.
\<close>

theorem do_GET_status:
  "do_GET cls (Inl x) = Inl x
   \<and> (path req \<noteq> CALLBACK_PATH \<longrightarrow>
        do_GET cls (Inr req) = Inr (cls, Send_error 404 ''Not Found''))
   \<and> (path req = CALLBACK_PATH \<longrightarrow>
        (\<exists>cls' message body.
           do_GET cls (Inr req)
             = Inr (cls',
                    Response 200
                      [(''Content-Type'', ''text/html; charset=utf-8''),
                       (''Content-Length'', str_nat (length body))]
                      body)
           \<and> body =
               ''<!doctype html><html><head><meta charset='' @ [CHR 0x27] @ ''utf-8''
               @ [CHR 0x27] @ ''><title>Strava Auth</title></head><body><p>''
               @ html_escape message @ ''</p></body></html>''
           \<and> (message
                 = ''Authorization received. You can close this tab and return to the terminal.''
               \<or> (\<exists>s. message = ''Authorization failed: '' @ s
                      \<and> error (result cls') = Some s))
           \<and> (\<forall>c \<in> set (html_escape message).
                  c \<notin> {CHR ''<'', CHR ''>'', CHR 0x22, CHR 0x27})
           \<and> ((\<forall>c \<in> set message. c \<notin> {CHR ''&'', CHR ''<'', CHR ''>'', CHR 0x22, CHR 0x27})
                \<longrightarrow> html_escape message = message)))"
proof (intro conjI impI)
  show "do_GET cls (Inl x) = Inl x" by (rule do_GET_unparsed)
next
  assume "path req \<noteq> CALLBACK_PATH"
  then show "do_GET cls (Inr req) = Inr (cls, Send_error 404 ''Not Found'')"
    by (rule do_GET_other_path)
next
  assume on_path: "path req = CALLBACK_PATH"
  obtain st c e where q: "query_first (parse_qs (pairs req)) ''state'' = Inr st"
    "query_first (parse_qs (pairs req)) ''code'' = Inr c"
    "query_first (parse_qs (pairs req)) ''error'' = Inr e"
    using query_first_parse_qs by meson
  define r where "r =
    (if e \<noteq> [] then (result cls)\<lparr>error := Some (''Strava returned error: '' @ e)\<rparr>
     else if c = [] then
       (result cls)\<lparr>error := Some ''Missing code query parameter in callback URL.''\<rparr>
     else if st \<noteq> expected_state cls then
       (result cls)\<lparr>error := Some ''State mismatch in callback. Please retry.''\<rparr>
     else (result cls)\<lparr>code := Some c\<rparr>)"
  define message where "message =
    (if e \<noteq> [] then ''Authorization failed: Strava returned error: '' @ e
     else if c = [] then
       ''Authorization failed: Missing code query parameter in callback URL.''
     else if st \<noteq> expected_state cls then
       ''Authorization failed: State mismatch in callback. Please retry.''
     else if truthy (error (result cls)) then
       ''Authorization failed: '' @ (case error (result cls) of Some s \<Rightarrow> s | None \<Rightarrow> ''None'')
     else ''Authorization received. You can close this tab and return to the terminal.'')"
  define body where "body =
    ''<!doctype html><html><head><meta charset='' @ [CHR 0x27] @ ''utf-8''
    @ [CHR 0x27] @ ''><title>Strava Auth</title></head><body><p>''
    @ html_escape message @ ''</p></body></html>''"
  have handled: "do_GET cls (Inr req) = Inr (cls\<lparr>result := r\<rparr>, html_response message)"
    using do_GET_callback [OF on_path q, of cls] by (simp only: r_def message_def)
  have page_body: "page message = body"
    by (simp only: body_def page_def append_assoc append.simps)
  have answer: "do_GET cls (Inr req)
      = Inr (cls\<lparr>result := r\<rparr>,
             Response 200
               [(''Content-Type'', ''text/html; charset=utf-8''),
                (''Content-Length'', str_nat (length body))]
               body)"
    by (simp only: handled html_response_def page_body)
  have stored: "result (cls\<lparr>result := r\<rparr>) = r" by simp
  have shape: "message
      = ''Authorization received. You can close this tab and return to the terminal.''
    \<or> (\<exists>s. message = ''Authorization failed: '' @ s \<and> error r = Some s)"
  proof (cases "e \<noteq> []")
    case True
    then have "message = ''Authorization failed: '' @ (''Strava returned error: '' @ e)"
      "error r = Some (''Strava returned error: '' @ e)"
      by (simp_all add: message_def r_def)
    then show ?thesis by blast
  next
    case no_error: False
    show ?thesis
    proof (cases "c = []")
      case True
      with no_error have
        "message = ''Authorization failed: '' @ ''Missing code query parameter in callback URL.''"
        "error r = Some ''Missing code query parameter in callback URL.''"
        by (simp_all add: message_def r_def)
      then show ?thesis by blast
    next
      case has_code: False
      show ?thesis
      proof (cases "st \<noteq> expected_state cls")
        case True
        with no_error has_code have
          "message = ''Authorization failed: '' @ ''State mismatch in callback. Please retry.''"
          "error r = Some ''State mismatch in callback. Please retry.''"
          by (simp_all add: message_def r_def)
        then show ?thesis by blast
      next
        case matches: False
        show ?thesis
        proof (cases "truthy (error (result cls))")
          case True
          then obtain s where s: "error (result cls) = Some s"
            by (cases "error (result cls)") (simp_all add: truthy_def)
          with True no_error has_code matches have
            "message = ''Authorization failed: '' @ s" "error r = Some s"
            by (simp_all add: message_def r_def)
          then show ?thesis by blast
        next
          case False
          with no_error has_code matches have "message
            = ''Authorization received. You can close this tab and return to the terminal.''"
            by (simp add: message_def)
          then show ?thesis by (rule disjI1)
        qed
      qed
    qed
  qed
  have clean: "\<forall>c \<in> set (html_escape message).
      c \<notin> {CHR ''<'', CHR ''>'', CHR 0x22, CHR 0x27}"
    using html_escape_no_markup by blast
  have plain: "(\<forall>c \<in> set message. c \<notin> {CHR ''&'', CHR ''<'', CHR ''>'', CHR 0x22, CHR 0x27})
      \<longrightarrow> html_escape message = message"
    using html_escape_plain by blast
  show "\<exists>cls' message body.
           do_GET cls (Inr req)
             = Inr (cls',
                    Response 200
                      [(''Content-Type'', ''text/html; charset=utf-8''),
                       (''Content-Length'', str_nat (length body))]
                      body)
           \<and> body =
               ''<!doctype html><html><head><meta charset='' @ [CHR 0x27] @ ''utf-8''
               @ [CHR 0x27] @ ''><title>Strava Auth</title></head><body><p>''
               @ html_escape message @ ''</p></body></html>''
           \<and> (message
                 = ''Authorization received. You can close this tab and return to the terminal.''
               \<or> (\<exists>s. message = ''Authorization failed: '' @ s
                      \<and> error (result cls') = Some s))
           \<and> (\<forall>c \<in> set (html_escape message).
                  c \<notin> {CHR ''<'', CHR ''>'', CHR 0x22, CHR 0x27})
           \<and> ((\<forall>c \<in> set message. c \<notin> {CHR ''&'', CHR ''<'', CHR ''>'', CHR 0x22, CHR 0x27})
                \<longrightarrow> html_escape message = message)"
  proof (intro exI conjI)
    show "do_GET cls (Inr req)
      = Inr (cls\<lparr>result := r\<rparr>,
             Response 200
               [(''Content-Type'', ''text/html; charset=utf-8''),
                (''Content-Length'', str_nat (length body))]
               body)"
      by (rule answer)
    show "body =
      ''<!doctype html><html><head><meta charset='' @ [CHR 0x27] @ ''utf-8''
      @ [CHR 0x27] @ ''><title>Strava Auth</title></head><body><p>''
      @ html_escape message @ ''</p></body></html>''"
      by (rule body_def)
    show "message
        = ''Authorization received. You can close this tab and return to the terminal.''
      \<or> (\<exists>s. message = ''Authorization failed: '' @ s
             \<and> error (result (cls\<lparr>result := r\<rparr>)) = Some s)"
      using shape by (simp only: stored)
    show "\<forall>c \<in> set (html_escape message).
        c \<notin> {CHR ''<'', CHR ''>'', CHR 0x22, CHR 0x27}"
      by (rule clean)
    show "(\<forall>c \<in> set message. c \<notin> {CHR ''&'', CHR ''<'', CHR ''>'', CHR 0x22, CHR 0x27})
        \<longrightarrow> html_escape message = message"
      by (rule plain)
  qed
qed

theorem do_GET_status_witness:
  "do_GET \<lparr>result = \<lparr>code = None, error = None\<rparr>, expected_state = ''xyz''\<rparr> (Inl ValueError)
   = Inl ValueError
   \<and> do_GET \<lparr>result = \<lparr>code = None, error = None\<rparr>, expected_state = ''xyz''\<rparr>
       (Inr \<lparr>path = ''/favicon.ico'', pairs = []\<rparr>)
     = Inr (\<lparr>result = \<lparr>code = None, error = None\<rparr>, expected_state = ''xyz''\<rparr>,
            Send_error 404 ''Not Found'')
   \<and> (\<exists>cls' message body.
         do_GET \<lparr>result = \<lparr>code = None, error = None\<rparr>, expected_state = ''xyz''\<rparr>
           (Inr \<lparr>path = ''/exchange_token'', pairs = [(''error'', ''<b>&'')]\<rparr>)
         = Inr (cls',
                Response 200
                  [(''Content-Type'', ''text/html; charset=utf-8''),
                   (''Content-Length'', str_nat (length body))]
                  body)
         \<and> body =
             ''<!doctype html><html><head><meta charset='' @ [CHR 0x27] @ ''utf-8''
             @ [CHR 0x27] @ ''><title>Strava Auth</title></head><body><p>''
             @ html_escape message @ ''</p></body></html>''
         \<and> (message
               = ''Authorization received. You can close this tab and return to the terminal.''
             \<or> (\<exists>s. message = ''Authorization failed: '' @ s
                    \<and> error (result cls') = Some s))
         \<and> (\<forall>c \<in> set (html_escape message).
                c \<notin> {CHR ''<'', CHR ''>'', CHR 0x22, CHR 0x27})
         \<and> ((\<forall>c \<in> set message. c \<notin> {CHR ''&'', CHR ''<'', CHR ''>'', CHR 0x22, CHR 0x27})
              \<longrightarrow> html_escape message = message))
   \<and> do_GET \<lparr>result = \<lparr>code = None, error = None\<rparr>, expected_state = ''xyz''\<rparr>
       (Inr \<lparr>path = ''/exchange_token'', pairs = [(''error'', ''<b>&'')]\<rparr>)
     = Inr (\<lparr>result = \<lparr>code = None, error = Some ''Strava returned error: <b>&''\<rparr>,
             expected_state = ''xyz''\<rparr>,
            Response 200
              [(''Content-Type'', ''text/html; charset=utf-8''), (''Content-Length'', ''168'')]
              (''<!doctype html><html><head><meta charset='' @ [CHR 0x27] @ ''utf-8''
               @ [CHR 0x27] @ ''><title>Strava Auth</title></head><body>''
               @ ''<p>Authorization failed: Strava returned error: &lt;b&gt;&amp;</p></body></html>''))"
proof (intro conjI)
  let ?cls = "\<lparr>result = \<lparr>code = None, error = None\<rparr>, expected_state = ''xyz''\<rparr>"
  let ?off = "\<lparr>path = ''/favicon.ico'', pairs = []\<rparr>"
  let ?on = "\<lparr>path = ''/exchange_token'', pairs = [(''error'', ''<b>&'')]\<rparr>"
  have off: "path ?off \<noteq> CALLBACK_PATH" by (simp add: CALLBACK_PATH_def)
  have on: "path ?on = CALLBACK_PATH" by (simp add: CALLBACK_PATH_def)
  show "do_GET ?cls (Inl ValueError) = Inl ValueError"
    by (rule do_GET_status [of ?cls ValueError ?off, THEN conjunct1])
  show "do_GET ?cls (Inr ?off) = Inr (?cls, Send_error 404 ''Not Found'')"
    by (rule do_GET_status [of ?cls ValueError ?off, THEN conjunct2, THEN conjunct1, THEN mp,
          OF off])
  show "\<exists>cls' message body.
         do_GET ?cls (Inr ?on)
         = Inr (cls',
                Response 200
                  [(''Content-Type'', ''text/html; charset=utf-8''),
                   (''Content-Length'', str_nat (length body))]
                  body)
         \<and> body =
             ''<!doctype html><html><head><meta charset='' @ [CHR 0x27] @ ''utf-8''
             @ [CHR 0x27] @ ''><title>Strava Auth</title></head><body><p>''
             @ html_escape message @ ''</p></body></html>''
         \<and> (message
               = ''Authorization received. You can close this tab and return to the terminal.''
             \<or> (\<exists>s. message = ''Authorization failed: '' @ s
                    \<and> error (result cls') = Some s))
         \<and> (\<forall>c \<in> set (html_escape message).
                c \<notin> {CHR ''<'', CHR ''>'', CHR 0x22, CHR 0x27})
         \<and> ((\<forall>c \<in> set message. c \<notin> {CHR ''&'', CHR ''<'', CHR ''>'', CHR 0x22, CHR 0x27})
              \<longrightarrow> html_escape message = message)"
    by (rule do_GET_status [of ?cls ValueError ?on, THEN conjunct2, THEN conjunct2, THEN mp,
          OF on])
  show "do_GET ?cls (Inr ?on)
     = Inr (\<lparr>result = \<lparr>code = None, error = Some ''Strava returned error: <b>&''\<rparr>,
             expected_state = ''xyz''\<rparr>,
            Response 200
              [(''Content-Type'', ''text/html; charset=utf-8''), (''Content-Length'', ''168'')]
              (''<!doctype html><html><head><meta charset='' @ [CHR 0x27] @ ''utf-8''
               @ [CHR 0x27] @ ''><title>Strava Auth</title></head><body>''
               @ ''<p>Authorization failed: Strava returned error: &lt;b&gt;&amp;</p></body></html>''))"
    by code_simp
qed

text \<open>
  The claim as written promises the 404 answer to every GET request that is not for the
  callback path. For the request target \<open>http://[/favicon.ico\<close>, \<open>urlparse\<close> raises
  \<open>ValueError\<close>: the handler raises, no response is sent, and the server goes on with the
  class attributes as they were.
\<close>

theorem unparsed_target_counterexample:
  "do_GET \<lparr>result = \<lparr>code = None, error = None\<rparr>, expected_state = ''xyz''\<rparr> (Inl ValueError)
   = Inl ValueError
   \<and> serve \<lparr>result = \<lparr>code = None, error = None\<rparr>, expected_state = ''xyz''\<rparr> [Inl ValueError]
     = \<lparr>result = \<lparr>code = None, error = None\<rparr>, expected_state = ''xyz''\<rparr>"
  by (simp add: do_GET_def)


subsection \<open>The page follows the stored error\<close>




section \<open>Properties of the repository slug resolution\<close>

lemma first_normalized_find:
  "first_normalized nrm cs =
     (case List.find (\<lambda>c. truthy (nrm c)) cs of None \<Rightarrow> None | Some c \<Rightarrow> nrm c)"
  by (induction cs) (simp_all add: Let_def)

lemma first_normalized_None:
  "first_normalized nrm cs = None \<longleftrightarrow> (\<forall>c \<in> set cs. \<not> truthy (nrm c))"
proof (induction cs)
  case Nil
  show ?case by simp
next
  case (Cons c cs)
  show ?case
  proof (cases "truthy (nrm c)")
    case True
    then have "nrm c \<noteq> None" by (auto simp: truthy_def split: option.splits)
    with True show ?thesis by (simp add: Let_def)
  next
    case False
    with Cons.IH show ?thesis by (simp add: Let_def)
  qed
qed

lemma first_normalized_truthy:
  "first_normalized nrm cs = Some s \<Longrightarrow> s \<noteq> []"
proof (induction cs)
  case Nil
  then show ?case by simp
next
  case (Cons c cs)
  show ?case
  proof (cases "truthy (nrm c)")
    case True
    with Cons.prems show ?thesis by (simp add: Let_def truthy_def)
  next
    case False
    with Cons show ?thesis by (simp add: Let_def)
  qed
qed

text \<open>
  Claim C9, as the code has it. The four candidates are the explicit repository
  argument, the normalised output of \<open>git config --get remote.origin.url\<close> (nothing when
  the command fails), the environment variable \<open>GH_REPO\<close>, and the normalised output of
  \<open>gh repo view\<close> (nothing when the command fails). All four are computed before any is
  tried: when \<open>git\<close> or \<open>gh\<close> cannot be run, the exception leaves the function, whatever the
  explicit argument is. Otherwise the result is the normalised form of the first
  candidate, in this order, whose normalised form is a non-empty string, and \<open>None\<close>
  exactly when no candidate has one.
\<close>

theorem resolve_repo_slug_precedence:
  "(git_remote_origin_url env = Inl x \<longrightarrow> resolve_repo_slug nrm env explicit_repo = Inl x)
   \<and> (git_remote_origin_url env = Inr git \<and> gh_repo_view env = Inl x
        \<longrightarrow> resolve_repo_slug nrm env explicit_repo = Inl x)
   \<and> (git_remote_origin_url env = Inr git \<and> gh_repo_view env = Inr gh \<longrightarrow>
        (\<exists>from_git from_gh slug.
           from_git = (if returncode git \<noteq> 0 then None else nrm (Some (strip (stdout git))))
           \<and> from_gh = (if returncode gh \<noteq> 0 then None else nrm (Some (strip (stdout gh))))
           \<and> resolve_repo_slug nrm env explicit_repo = Inr slug
           \<and> slug =
               (if truthy (nrm explicit_repo) then nrm explicit_repo
                else if truthy (nrm from_git) then nrm from_git
                else if truthy (nrm (GH_REPO env)) then nrm (GH_REPO env)
                else if truthy (nrm from_gh) then nrm from_gh
                else None)
           \<and> (slug = None \<longleftrightarrow>
                \<not> truthy (nrm explicit_repo) \<and> \<not> truthy (nrm from_git)
                \<and> \<not> truthy (nrm (GH_REPO env)) \<and> \<not> truthy (nrm from_gh))
           \<and> (\<forall>s. slug = Some s \<longrightarrow> s \<noteq> [])))"
proof (intro conjI impI)
  assume "git_remote_origin_url env = Inl x"
  then show "resolve_repo_slug nrm env explicit_repo = Inl x"
    by (simp add: resolve_repo_slug_def repo_slug_from_git_def)
next
  assume "git_remote_origin_url env = Inr git \<and> gh_repo_view env = Inl x"
  then show "resolve_repo_slug nrm env explicit_repo = Inl x"
    by (simp add: resolve_repo_slug_def repo_slug_from_git_def repo_slug_from_gh_context_def)
next
  assume ran: "git_remote_origin_url env = Inr git \<and> gh_repo_view env = Inr gh"
  define from_git where
    "from_git = (if returncode git \<noteq> 0 then None else nrm (Some (strip (stdout git))))"
  define from_gh where
    "from_gh = (if returncode gh \<noteq> 0 then None else nrm (Some (strip (stdout gh))))"
  define slug where
    "slug = first_normalized nrm [explicit_repo, from_git, GH_REPO env, from_gh]"
  have resolved: "resolve_repo_slug nrm env explicit_repo = Inr slug"
    using ran
    by (simp add: resolve_repo_slug_def repo_slug_from_git_def repo_slug_from_gh_context_def
        slug_def from_git_def from_gh_def)
  have order: "slug =
      (if truthy (nrm explicit_repo) then nrm explicit_repo
       else if truthy (nrm from_git) then nrm from_git
       else if truthy (nrm (GH_REPO env)) then nrm (GH_REPO env)
       else if truthy (nrm from_gh) then nrm from_gh
       else None)"
    by (simp add: slug_def first_normalized_find)
  have none: "slug = None \<longleftrightarrow>
      \<not> truthy (nrm explicit_repo) \<and> \<not> truthy (nrm from_git)
      \<and> \<not> truthy (nrm (GH_REPO env)) \<and> \<not> truthy (nrm from_gh)"
    unfolding slug_def first_normalized_None by simp
  have nonempty: "\<forall>s. slug = Some s \<longrightarrow> s \<noteq> []"
    unfolding slug_def using first_normalized_truthy by blast
  show "\<exists>from_git from_gh slug.
           from_git = (if returncode git \<noteq> 0 then None else nrm (Some (strip (stdout git))))
           \<and> from_gh = (if returncode gh \<noteq> 0 then None else nrm (Some (strip (stdout gh))))
           \<and> resolve_repo_slug nrm env explicit_repo = Inr slug
           \<and> slug =
               (if truthy (nrm explicit_repo) then nrm explicit_repo
                else if truthy (nrm from_git) then nrm from_git
                else if truthy (nrm (GH_REPO env)) then nrm (GH_REPO env)
                else if truthy (nrm from_gh) then nrm from_gh
                else None)
           \<and> (slug = None \<longleftrightarrow>
                \<not> truthy (nrm explicit_repo) \<and> \<not> truthy (nrm from_git)
                \<and> \<not> truthy (nrm (GH_REPO env)) \<and> \<not> truthy (nrm from_gh))
           \<and> (\<forall>s. slug = Some s \<longrightarrow> s \<noteq> [])"
  proof (intro exI conjI)
    show "from_git = (if returncode git \<noteq> 0 then None else nrm (Some (strip (stdout git))))"
      by (rule from_git_def)
    show "from_gh = (if returncode gh \<noteq> 0 then None else nrm (Some (strip (stdout gh))))"
      by (rule from_gh_def)
    show "resolve_repo_slug nrm env explicit_repo = Inr slug" by (rule resolved)
    show "slug =
      (if truthy (nrm explicit_repo) then nrm explicit_repo
       else if truthy (nrm from_git) then nrm from_git
       else if truthy (nrm (GH_REPO env)) then nrm (GH_REPO env)
       else if truthy (nrm from_gh) then nrm from_gh
       else None)"
      by (rule order)
    show "slug = None \<longleftrightarrow>
      \<not> truthy (nrm explicit_repo) \<and> \<not> truthy (nrm from_git)
      \<and> \<not> truthy (nrm (GH_REPO env)) \<and> \<not> truthy (nrm from_gh)"
      by (rule none)
    show "\<forall>s. slug = Some s \<longrightarrow> s \<noteq> []" by (rule nonempty)
  qed
qed

theorem resolve_repo_slug_precedence_witness:
  "resolve_repo_slug
     (\<lambda>v. case v of None \<Rightarrow> None | Some s \<Rightarrow> if 47 \<in> set s then Some s else None)
     \<lparr>git_remote_origin_url =
        Inr \<lparr>returncode = 0,
             stdout = [9, 10, 11, 12, 13, 28, 29, 30, 31, 32, 133, 160, 5760, 8192, 8193, 8194,
                       8195, 8196, 8197, 8198, 8199, 8200, 8201, 8202, 8232, 8233, 8239, 8287,
                       12288]
                      @ map of_char ''me/from-git''
                      @ [12288, 8287, 8239, 8233, 8232, 8202, 8201, 8200, 8199, 8198, 8197, 8196,
                         8195, 8194, 8193, 8192, 5760, 160, 133, 32, 31, 30, 29, 28, 13, 12, 11,
                         10, 9]\<rparr>,
      GH_REPO = Some (map of_char ''me/from-env''),
      gh_repo_view = Inr \<lparr>returncode = 0, stdout = map of_char ''me/from-gh'' @ [10]\<rparr>\<rparr>
     (Some (map of_char ''not a slug''))
   = Inr (Some (map of_char ''me/from-git''))
   \<and> resolve_repo_slug
       (\<lambda>v. case v of None \<Rightarrow> None | Some s \<Rightarrow> if 47 \<in> set s then Some s else None)
       \<lparr>git_remote_origin_url = Inr \<lparr>returncode = 1, stdout = map of_char ''me/stale''\<rparr>,
        GH_REPO = None,
        gh_repo_view = Inr \<lparr>returncode = 0, stdout = map of_char ''me/from-gh'' @ [10]\<rparr>\<rparr>
       None
     = Inr (Some (map of_char ''me/from-gh''))
   \<and> resolve_repo_slug
       (\<lambda>v. case v of None \<Rightarrow> None | Some s \<Rightarrow> if 47 \<in> set s then Some s else None)
       \<lparr>git_remote_origin_url = Inr \<lparr>returncode = 1, stdout = []\<rparr>,
        GH_REPO = Some (map of_char ''nothing''),
        gh_repo_view = Inr \<lparr>returncode = 1, stdout = []\<rparr>\<rparr>
       None
     = Inr None
   \<and> resolve_repo_slug
       (\<lambda>v. case v of None \<Rightarrow> None | Some s \<Rightarrow> if 47 \<in> set s then Some s else None)
       \<lparr>git_remote_origin_url = Inl FileNotFoundError,
        GH_REPO = None,
        gh_repo_view = Inr \<lparr>returncode = 0, stdout = map of_char ''me/from-gh''\<rparr>\<rparr>
       None
     = Inl FileNotFoundError"
proof (intro conjI)
  let ?nrm = "\<lambda>v. case v of None \<Rightarrow> None
                | Some s \<Rightarrow> if (47::nat) \<in> set s then Some s else None"
  let ?git_a = "\<lparr>returncode = 0,
             stdout = [9, 10, 11, 12, 13, 28, 29, 30, 31, 32, 133, 160, 5760, 8192, 8193, 8194,
                       8195, 8196, 8197, 8198, 8199, 8200, 8201, 8202, 8232, 8233, 8239, 8287,
                       12288]
                      @ map of_char ''me/from-git''
                      @ [12288, 8287, 8239, 8233, 8232, 8202, 8201, 8200, 8199, 8198, 8197, 8196,
                         8195, 8194, 8193, 8192, 5760, 160, 133, 32, 31, 30, 29, 28, 13, 12, 11,
                         10, 9]\<rparr>"
  let ?gh_a = "\<lparr>returncode = 0, stdout = map of_char ''me/from-gh'' @ [10]\<rparr>"
  let ?env_a = "\<lparr>git_remote_origin_url = Inr ?git_a,
      GH_REPO = Some (map of_char ''me/from-env''), gh_repo_view = Inr ?gh_a\<rparr>"
  have ran_a: "git_remote_origin_url ?env_a = Inr ?git_a \<and> gh_repo_view ?env_a = Inr ?gh_a"
    by simp
  from resolve_repo_slug_precedence [where env = ?env_a and nrm = ?nrm and git = ?git_a
      and gh = ?gh_a and explicit_repo = "Some (map of_char ''not a slug'')",
      THEN conjunct2, THEN conjunct2, THEN mp, OF ran_a]
  obtain from_git from_gh slug where
    a: "from_git = (if returncode ?git_a \<noteq> 0 then None
                    else ?nrm (Some (strip (stdout ?git_a))))"
      "from_gh = (if returncode ?gh_a \<noteq> 0 then None else ?nrm (Some (strip (stdout ?gh_a))))"
      "resolve_repo_slug ?nrm ?env_a (Some (map of_char ''not a slug'')) = Inr slug"
      "slug =
        (if truthy (?nrm (Some (map of_char ''not a slug'')))
         then ?nrm (Some (map of_char ''not a slug''))
         else if truthy (?nrm from_git) then ?nrm from_git
         else if truthy (?nrm (GH_REPO ?env_a)) then ?nrm (GH_REPO ?env_a)
         else if truthy (?nrm from_gh) then ?nrm from_gh
         else None)"
    by (elim exE conjE)
  have "from_git = Some (map of_char ''me/from-git'')"
    unfolding a(1) by (simp add: strip_def isspace_def)
  then have "slug = Some (map of_char ''me/from-git'')"
    unfolding a(4) by (simp add: truthy_def)
  with a(3)
  show "resolve_repo_slug ?nrm ?env_a (Some (map of_char ''not a slug''))
      = Inr (Some (map of_char ''me/from-git''))"
    by simp
next
  let ?nrm = "\<lambda>v. case v of None \<Rightarrow> None
                | Some s \<Rightarrow> if (47::nat) \<in> set s then Some s else None"
  let ?git_b = "\<lparr>returncode = 1, stdout = map of_char ''me/stale''\<rparr>"
  let ?gh_b = "\<lparr>returncode = 0, stdout = map of_char ''me/from-gh'' @ [10]\<rparr>"
  let ?env_b = "\<lparr>git_remote_origin_url = Inr ?git_b, GH_REPO = None,
      gh_repo_view = Inr ?gh_b\<rparr>"
  have ran_b: "git_remote_origin_url ?env_b = Inr ?git_b \<and> gh_repo_view ?env_b = Inr ?gh_b"
    by simp
  from resolve_repo_slug_precedence [where env = ?env_b and nrm = ?nrm and git = ?git_b
      and gh = ?gh_b and explicit_repo = None,
      THEN conjunct2, THEN conjunct2, THEN mp, OF ran_b]
  obtain from_git from_gh slug where
    b: "from_git = (if returncode ?git_b \<noteq> 0 then None
                    else ?nrm (Some (strip (stdout ?git_b))))"
      "from_gh = (if returncode ?gh_b \<noteq> 0 then None else ?nrm (Some (strip (stdout ?gh_b))))"
      "resolve_repo_slug ?nrm ?env_b None = Inr slug"
      "slug =
        (if truthy (?nrm None) then ?nrm None
         else if truthy (?nrm from_git) then ?nrm from_git
         else if truthy (?nrm (GH_REPO ?env_b)) then ?nrm (GH_REPO ?env_b)
         else if truthy (?nrm from_gh) then ?nrm from_gh
         else None)"
    by (elim exE conjE)
  have "from_git = None" unfolding b(1) by simp
  moreover have "from_gh = Some (map of_char ''me/from-gh'')"
    unfolding b(2) by (simp add: strip_def isspace_def)
  ultimately have "slug = Some (map of_char ''me/from-gh'')"
    unfolding b(4) by (simp add: truthy_def)
  with b(3)
  show "resolve_repo_slug ?nrm ?env_b None = Inr (Some (map of_char ''me/from-gh''))"
    by simp
next
  let ?nrm = "\<lambda>v. case v of None \<Rightarrow> None
                | Some s \<Rightarrow> if (47::nat) \<in> set s then Some s else None"
  let ?git_c = "\<lparr>returncode = 1, stdout = []\<rparr>"
  let ?gh_c = "\<lparr>returncode = 1, stdout = []\<rparr>"
  let ?env_c = "\<lparr>git_remote_origin_url = Inr ?git_c,
      GH_REPO = Some (map of_char ''nothing''), gh_repo_view = Inr ?gh_c\<rparr>"
  have ran_c: "git_remote_origin_url ?env_c = Inr ?git_c \<and> gh_repo_view ?env_c = Inr ?gh_c"
    by simp
  from resolve_repo_slug_precedence [where env = ?env_c and nrm = ?nrm and git = ?git_c
      and gh = ?gh_c and explicit_repo = None,
      THEN conjunct2, THEN conjunct2, THEN mp, OF ran_c]
  obtain from_git from_gh slug where
    c: "from_git = (if returncode ?git_c \<noteq> 0 then None
                    else ?nrm (Some (strip (stdout ?git_c))))"
      "from_gh = (if returncode ?gh_c \<noteq> 0 then None else ?nrm (Some (strip (stdout ?gh_c))))"
      "resolve_repo_slug ?nrm ?env_c None = Inr slug"
      "slug =
        (if truthy (?nrm None) then ?nrm None
         else if truthy (?nrm from_git) then ?nrm from_git
         else if truthy (?nrm (GH_REPO ?env_c)) then ?nrm (GH_REPO ?env_c)
         else if truthy (?nrm from_gh) then ?nrm from_gh
         else None)"
    by (elim exE conjE)
  have "from_git = None" "from_gh = None" unfolding c(1) c(2) by simp_all
  then have "slug = None" unfolding c(4) by (simp add: truthy_def)
  with c(3) show "resolve_repo_slug ?nrm ?env_c None = Inr None" by simp
next
  let ?nrm = "\<lambda>v. case v of None \<Rightarrow> None
                | Some s \<Rightarrow> if (47::nat) \<in> set s then Some s else None"
  let ?env_d = "\<lparr>git_remote_origin_url = Inl FileNotFoundError, GH_REPO = None,
      gh_repo_view = Inr \<lparr>returncode = 0, stdout = map of_char ''me/from-gh''\<rparr>\<rparr>"
  have failed: "git_remote_origin_url ?env_d = Inl FileNotFoundError" by simp
  show "resolve_repo_slug ?nrm ?env_d None = Inl FileNotFoundError"
    by (rule resolve_repo_slug_precedence [where env = ?env_d and nrm = ?nrm
          and x = FileNotFoundError and explicit_repo = None, THEN conjunct1, THEN mp,
          OF failed])
qed

text \<open>
  The claim as written returns the first candidate that normalises. With an explicit
  argument that is a slug and a machine on which \<open>gh\<close> is not installed, the function
  does not return that slug: it raises \<open>FileNotFoundError\<close> while it builds the list of
  candidates.
\<close>

theorem missing_gh_counterexample:
  "truthy ((\<lambda>v. case v of None \<Rightarrow> None | Some s \<Rightarrow> if 47 \<in> set s then Some s else None)
             (Some (map of_char ''me/activities'')))
   \<and> resolve_repo_slug
       (\<lambda>v. case v of None \<Rightarrow> None | Some s \<Rightarrow> if 47 \<in> set s then Some s else None)
       \<lparr>git_remote_origin_url =
          Inr \<lparr>returncode = 0, stdout = map of_char ''git@github.com:me/activities.git'' @ [10]\<rparr>,
        GH_REPO = None,
        gh_repo_view = Inl FileNotFoundError\<rparr>
       (Some (map of_char ''me/activities''))
     = Inl FileNotFoundError"
  by (simp add: resolve_repo_slug_def repo_slug_from_git_def repo_slug_from_gh_context_def
      truthy_def)



section \<open>Properties of the exit status\<close>







section \<open>Properties of the modelled secret groups\<close>



end
